theory Spec2Isabelle
  imports Main "HOL-Library.Sublist"
begin

section \<open>Python values reaching the exit-code helpers\<close>

text \<open>
  The functions of \<^verbatim>\<open>caldp/exit_codes.py\<close> are dynamically typed: \<^verbatim>\<open>exit_code\<close> and
  \<^verbatim>\<open>signum\<close> may be any object. The module does three things with its argument: it
  hashes it and compares it with stored keys (dict membership and subscript), it compares
  it with the elements of a list (\<^verbatim>\<open>in\<close> on a list), and it formats it in an f-string.

  The values the module itself works with are modelled exactly: integers, strings, and
  the booleans and \<^verbatim>\<open>None\<close> that compare against them. A list of such values is kept
  as the usual unhashable argument. Any other object (a float, a \<^verbatim>\<open>Decimal\<close>, a tuple,
  an instance of a user class) is modelled by what these three operations do on it.
\<close>

datatype scalar = SInt int | SStr string | SBool bool | SNone

datatype error = TypeError | KeyError | AssertionError | AttributeError | ValueError

text \<open>
  An object other than an exact \<^verbatim>\<open>int\<close>, \<^verbatim>\<open>str\<close>, \<^verbatim>\<open>bool\<close>, \<^verbatim>\<open>None\<close> or list, by its
  behaviour (its methods are taken to be deterministic):
  \<^item> \<open>obj_hash\<close>: the exception \<^verbatim>\<open>hash(x)\<close> raises, if it raises;
  \<^item> \<open>obj_key_cmp k\<close>: what a dict lookup of \<^verbatim>\<open>x\<close> does at a stored key \<^verbatim>\<open>k\<close>:
    false when the hashes differ (the dict then does not compare), otherwise the
    outcome of \<^verbatim>\<open>k == x\<close>, which may raise;
  \<^item> \<open>obj_eq k\<close>: the outcome of \<^verbatim>\<open>k == x\<close> as list membership evaluates it;
  \<^item> \<open>obj_format\<close>: the outcome of formatting \<^verbatim>\<open>x\<close> in an f-string.
\<close>

record pyobj =
  obj_hash :: "error option"
  obj_key_cmp :: "scalar \<Rightarrow> error + bool"
  obj_eq :: "scalar \<Rightarrow> error + bool"
  obj_format :: "error + string"

datatype pyval = Scalar scalar | PList "scalar list" | PObject pyobj

text \<open>Python's \<^verbatim>\<open>==\<close>: a bool is the integer 0 or 1, no other kinds compare equal.\<close>

fun scalar_eq :: "scalar \<Rightarrow> scalar \<Rightarrow> bool" where
  "scalar_eq (SInt a) (SInt b) = (a = b)"
| "scalar_eq (SInt a) (SBool b) = (a = (if b then 1 else 0))"
| "scalar_eq (SBool a) (SInt b) = (b = (if a then 1 else 0))"
| "scalar_eq (SBool a) (SBool b) = (a = b)"
| "scalar_eq (SStr a) (SStr b) = (a = b)"
| "scalar_eq SNone SNone = True"
| "scalar_eq _ _ = False"

text \<open>
  \<^verbatim>\<open>x in [..]\<close> on a list of integers or of strings: the elements are compared with
  \<^verbatim>\<open>x\<close> in order, the first equal one ends the search, and an exception raised by a
  comparison propagates. Nothing is hashed; a list equals no integer and no string.
\<close>

fun list_cmp :: "pyval \<Rightarrow> scalar \<Rightarrow> error + bool" where
  "list_cmp (Scalar s) el = Inr (scalar_eq el s)"
| "list_cmp (PList xs) el = Inr False"
| "list_cmp (PObject ob) el = obj_eq ob el"

fun list_has :: "pyval \<Rightarrow> scalar list \<Rightarrow> error + bool" where
  "list_has x [] = Inr False"
| "list_has x (el # els) =
     (case list_cmp x el of
        Inl e \<Rightarrow> Inl e
      | Inr b \<Rightarrow> if b then Inr True else list_has x els)"

subsection \<open>Decimal text of an integer: \<^verbatim>\<open>str(code)\<close> and \<^verbatim>\<open>f"{code}"\<close>\<close>

definition digit_char :: "nat \<Rightarrow> char" where
  "digit_char d = char_of (48 + d)"

fun str_nat :: "nat \<Rightarrow> string" where
  "str_nat n = (if n < 10 then [digit_char n] else str_nat (n div 10) @ [digit_char (n mod 10)])"

text \<open>The decimal text itself.\<close>

definition str_int :: "int \<Rightarrow> string" where
  "str_int i = (if i < 0 then CHR ''-'' # str_nat (nat (- i)) else str_nat (nat i))"

text \<open>
  The conversion as CPython 3.11 performs it: an integer with more decimal digits than
  the limit (4300 unless reconfigured; the sign does not count) raises
  \<^verbatim>\<open>ValueError\<close>, in \<^verbatim>\<open>str(i)\<close> and in \<^verbatim>\<open>f"{i}"\<close> alike.
\<close>

definition int_max_str_digits :: nat where
  "int_max_str_digits = 4300"

definition str_of_int :: "int \<Rightarrow> error + string" where
  "str_of_int i =
     (if int_max_str_digits < length (str_nat (nat \<bar>i\<bar>)) then Inl ValueError
      else Inr (str_int i))"

text \<open>The text of a scalar, and its formatting in an f-string, which can fail on an integer.\<close>

fun py_str :: "scalar \<Rightarrow> string" where
  "py_str (SInt i) = str_int i"
| "py_str (SStr s) = s"
| "py_str (SBool b) = (if b then ''True'' else ''False'')"
| "py_str SNone = ''None''"

fun format_scalar :: "scalar \<Rightarrow> error + string" where
  "format_scalar (SInt i) = str_of_int i"
| "format_scalar (SStr s) = Inr s"
| "format_scalar (SBool b) = Inr (if b then ''True'' else ''False'')"
| "format_scalar SNone = Inr ''None''"

subsection \<open>Dictionaries\<close>

text \<open>
  A dict keyed by hashable scalars, in insertion order. A key is found when it compares
  equal to a stored key; storing under an equal key replaces the value in place.
\<close>

type_synonym 'v dict = "(scalar \<times> 'v) list"

fun dict_get :: "'v dict \<Rightarrow> scalar \<Rightarrow> 'v option" where
  "dict_get [] k = None"
| "dict_get ((k', v) # d) k = (if scalar_eq k' k then Some v else dict_get d k)"

fun dict_set :: "'v dict \<Rightarrow> scalar \<Rightarrow> 'v \<Rightarrow> 'v dict" where
  "dict_set [] k v = [(k, v)]"
| "dict_set ((k', v') # d) k v =
     (if scalar_eq k' k then (k', v) # d else (k', v') # dict_set d k v)"

text \<open>A dict whose keys are all strings, asked for any hashable key.\<close>

fun str_dict_get :: "(string \<times> 'v) list \<Rightarrow> scalar \<Rightarrow> 'v option" where
  "str_dict_get d (SStr s) = map_of d s"
| "str_dict_get d _ = None"

text \<open>
  The lookup of an object: the stored keys whose hash is the object's are met in
  insertion order (keys of one hash share their probe sequence, and nothing is ever
  deleted), each is compared, the first equal one is the entry found, and an exception
  raised by a comparison propagates. The result is the entry, or \<open>None\<close> when no key
  matches.
\<close>

fun dict_find :: "(scalar \<Rightarrow> error + bool) \<Rightarrow> 'v dict \<Rightarrow> error + (scalar \<times> 'v) option" where
  "dict_find cmp [] = Inr None"
| "dict_find cmp ((k, v) # d) =
     (case cmp k of
        Inl e \<Rightarrow> Inl e
      | Inr b \<Rightarrow> if b then Inr (Some (k, v)) else dict_find cmp d)"

definition str_keys :: "(string \<times> 'v) list \<Rightarrow> 'v dict" where
  "str_keys d = map (\<lambda>(name, v). (SStr name, v)) d"

section \<open>The exit-code registry\<close>

text \<open>Module-level names lose their leading underscore, which an Isabelle name cannot carry.\<close>

definition MEMORY_ERROR_NAMES :: "string list" where
  "MEMORY_ERROR_NAMES =
     [''SUBPROCESS_MEMORY_ERROR'', ''CALDP_MEMORY_ERROR'', ''CONTAINER_MEMORY_ERROR'',
      ''OS_MEMORY_ERROR'']"

definition EXIT_CODES :: "(string \<times> int) list" where
  "EXIT_CODES =
     [(''SUCCESS'', 0),
      (''GENERIC_ERROR'', 1),
      (''CMDLINE_ERROR'', 2),
      (''INPUT_TAR_FILE_ERROR'', 21),
      (''ASTROQUERY_ERROR'', 22),
      (''STAGE1_ERROR'', 23),
      (''STAGE2_ERROR'', 24),
      (''S3_UPLOAD_ERROR'', 25),
      (''S3_DOWNLOAD_ERROR'', 26),
      (''BESTREFS_ERROR'', 27),
      (''CREATE_PREVIEWS_ERROR'', 28),
      (''SUBPROCESS_MEMORY_ERROR'', 31),
      (''CALDP_MEMORY_ERROR'', 32),
      (''CONTAINER_MEMORY_ERROR'', 33),
      (''OS_MEMORY_ERROR'', 34),
      (''SVM_ERROR'', 40),
      (''MVM_ERROR'', 41)]"

definition NAME_EXPLANATIONS :: "(string \<times> string) list" where
  "NAME_EXPLANATIONS =
     [(''SUCCESS'', ''Processing completed successfully.''),
      (''GENERIC_ERROR'', ''An error with no specific CALDP handling occurred somewhere.''),
      (''CMDLINE_ERROR'', ''The program command line invocation was incorrect.''),
      (''INPUT_TAR_FILE_ERROR'', ''An error occurred locating or untarring the inputs tarball.''),
      (''ASTROQUERY_ERROR'', ''An error occurred downloading astroqery: inputs''),
      (''STAGE1_ERROR'',
         ''An error occurred in this instrument'' @ [CHR 0x27] @
         ''s stage1 processing step. e.g. calxxx''),
      (''STAGE2_ERROR'',
         ''An error occurred in this instrument'' @ [CHR 0x27] @
         ''s stage2 processing step, e.g astrodrizzle''),
      (''SVM_ERROR'', ''An error occurred while running runsinglehap''),
      (''MVM_ERROR'', ''An error occurred while running runmultihap''),
      (''S3_UPLOAD_ERROR'', ''An error occurred uploading the outputs tarball to S3.''),
      (''S3_DOWNLOAD_ERROR'', ''An error occurred downloading inputs from S3.''),
      (''BESTREFS_ERROR'', ''An error occurred computing or downloading CRDS reference files.''),
      (''CREATE_PREVIEWS_ERROR'', ''An error occurrred creating preview files for processed data.''),
      (''SUBPROCESS_MEMORY_ERROR'',
         ''A Python MemoryError was detected by scanning the process.txt log.''),
      (''CALDP_MEMORY_ERROR'',
         ''CALDP generated a Python MemoryError during processing or preview creation.''),
      (''CONTAINER_MEMORY_ERROR'',
         ''The Batch/ECS container runtime killed the job due to memory limits.''),
      (''OS_MEMORY_ERROR'',
         ''Python raised OSError(Cannot allocate memory...),  possibly fork failure.'')]"

text \<open>
  The state the set-up loop writes: the module globals it injects (name to code) and
  \<^verbatim>\<open>_CODE_TO_NAME\<close>. Other globals of the module (functions, \<^verbatim>\<open>re\<close>, the loop
  variables) have names outside the registry and are left out.
\<close>

record module_state =
  globals :: "string \<rightharpoonup> int"
  code_to_name :: "string dict"

text \<open>
  \<^verbatim>\<open>for (name, code) in _EXIT_CODES.items(): ...\<close>, over any declared codes and
  explanations. Both arguments stand for dicts, listed in declaration order with
  distinct names; Python runs with assertions enabled.

  The loop runs at module level, so \<^verbatim>\<open>globals()[name] = code\<close> can rebind a name the
  loop itself reads, and each read below goes through the injected globals:
  \<^item> \<^verbatim>\<open>globals()\<close> calls an integer when an earlier pair was named \<^verbatim>\<open>globals\<close>;
  \<^item> \<^verbatim>\<open>_CODE_TO_NAME[code] = name\<close> subscripts an integer when a pair was named
    \<^verbatim>\<open>_CODE_TO_NAME\<close>;
  \<^item> \<^verbatim>\<open>str(code)\<close> calls an integer when a pair was named \<^verbatim>\<open>str\<close>, and otherwise
    raises \<^verbatim>\<open>ValueError\<close> beyond the digit limit;
  \<^item> \<^verbatim>\<open>name in _NAME_EXPLANATIONS\<close> tests membership in an integer when a pair was
    named \<^verbatim>\<open>_NAME_EXPLANATIONS\<close>;
  \<^item> for a pair named \<^verbatim>\<open>name\<close> the variable \<^verbatim>\<open>name\<close> then holds the code, which is
    no key of the explanations, so the assertion fails.
  Each of the first four is a \<^verbatim>\<open>TypeError\<close>. The \<^verbatim>\<open>for\<close> statement rebinds
  \<^verbatim>\<open>name\<close> and \<^verbatim>\<open>code\<close> at every turn: a global \<^verbatim>\<open>code\<close> injected by an
  earlier pair takes the current code, and \<^verbatim>\<open>name\<close> holds a string again.
\<close>

definition loop_names :: "string list" where
  "loop_names = [''name'', ''code'', ''globals'', ''str'', ''_CODE_TO_NAME'', ''_NAME_EXPLANATIONS'']"

definition for_binds :: "(string \<rightharpoonup> int) \<Rightarrow> int \<Rightarrow> (string \<rightharpoonup> int)" where
  "for_binds g code =
     (if g ''code'' = None then g else g(''code'' \<mapsto> code))(''name'' := None)"

fun init_loop ::
  "(string \<times> string) list \<Rightarrow> (string \<times> int) list \<Rightarrow> module_state \<Rightarrow> error + module_state" where
  "init_loop expl [] st = Inr st"
| "init_loop expl ((name, code) # rest) st =
     (let bound = for_binds (globals st) code
      in if bound ''globals'' \<noteq> None then Inl TypeError
      else
        let g = bound(name \<mapsto> code)
        in if g ''_CODE_TO_NAME'' \<noteq> None then Inl TypeError
           else if g ''str'' \<noteq> None then Inl TypeError
           else
             (case str_of_int code of
                Inl e \<Rightarrow> Inl e
              | Inr text \<Rightarrow>
                  let c1 = dict_set (code_to_name st) (SInt code) name;
                      c2 = dict_set c1 (SStr text) name;
                      st' = \<lparr>globals = g, code_to_name = c2\<rparr>
                  in if g ''_NAME_EXPLANATIONS'' \<noteq> None then Inl TypeError
                     else if name = ''name'' then Inl AssertionError
                     else if map_of expl name = None then Inl AssertionError
                     else init_loop expl rest st'))"

definition build_registry ::
  "(string \<times> string) list \<Rightarrow> (string \<times> int) list \<Rightarrow> error + module_state" where
  "build_registry expl codes = init_loop expl codes \<lparr>globals = Map.empty, code_to_name = []\<rparr>"

definition module_init :: "error + module_state" where
  "module_init = build_registry NAME_EXPLANATIONS EXIT_CODES"

subsection \<open>explain\<close>

definition exit_line :: "string \<Rightarrow> string \<Rightarrow> string \<Rightarrow> string" where
  "exit_line name code explanation = ''EXIT - '' @ name @ ''['' @ code @ '']: '' @ explanation"

definition unhandled_line :: "string \<Rightarrow> string" where
  "unhandled_line code = ''EXIT - unhandled exit code: '' @ code"

text \<open>
  The body of \<^verbatim>\<open>explain\<close> over the state of the loaded module and its explanation
  table. The first test hashes \<^verbatim>\<open>exit_code\<close>, so an unhashable argument raises
  \<^verbatim>\<open>TypeError\<close> there; each subscript raises \<^verbatim>\<open>KeyError\<close> on a missing key; the
  f-string formats \<^verbatim>\<open>name\<close> before \<^verbatim>\<open>exit_code\<close>.

  An object found under a name of \<^verbatim>\<open>_NAME_EXPLANATIONS\<close> is looked up in the module
  globals under that same name: it is taken to match no other global's name (two names
  of the module would have to share a hash).
\<close>

fun explain_with :: "module_state \<Rightarrow> (string \<times> string) list \<Rightarrow> pyval \<Rightarrow> error + string" where
  "explain_with st expl (PList xs) = Inl TypeError"
| "explain_with st expl (Scalar exit_code) =
     (case dict_get (code_to_name st) exit_code of
        Some name \<Rightarrow>
          (case map_of expl name of
             None \<Rightarrow> Inl KeyError
           | Some explanation \<Rightarrow>
               (case format_scalar exit_code of
                  Inl e \<Rightarrow> Inl e
                | Inr text \<Rightarrow> Inr (exit_line name text explanation)))
      | None \<Rightarrow>
          (case str_dict_get expl exit_code of
             Some explanation \<Rightarrow>
               (case globals st (py_str exit_code) of
                  None \<Rightarrow> Inl KeyError
                | Some code \<Rightarrow>
                    (case str_of_int code of
                       Inl e \<Rightarrow> Inl e
                     | Inr text \<Rightarrow> Inr (exit_line (py_str exit_code) text explanation)))
           | None \<Rightarrow>
               (case format_scalar exit_code of
                  Inl e \<Rightarrow> Inl e
                | Inr text \<Rightarrow> Inr (unhandled_line text))))"
| "explain_with st expl (PObject ob) =
     (case obj_hash ob of
        Some e \<Rightarrow> Inl e
      | None \<Rightarrow>
          (case dict_find (obj_key_cmp ob) (code_to_name st) of
             Inl e \<Rightarrow> Inl e
           | Inr (Some (k, name)) \<Rightarrow>
               (case map_of expl name of
                  None \<Rightarrow> Inl KeyError
                | Some explanation \<Rightarrow>
                    (case obj_format ob of
                       Inl e \<Rightarrow> Inl e
                     | Inr text \<Rightarrow> Inr (exit_line name text explanation)))
           | Inr None \<Rightarrow>
               (case dict_find (obj_key_cmp ob) (str_keys expl) of
                  Inl e \<Rightarrow> Inl e
                | Inr (Some (k, explanation)) \<Rightarrow>
                    (case globals st (py_str k) of
                       None \<Rightarrow> Inl KeyError
                     | Some code \<Rightarrow>
                         (case obj_format ob of
                            Inl e \<Rightarrow> Inl e
                          | Inr nametext \<Rightarrow>
                              (case str_of_int code of
                                 Inl e \<Rightarrow> Inl e
                               | Inr text \<Rightarrow> Inr (exit_line nametext text explanation))))
                | Inr None \<Rightarrow>
                    (case obj_format ob of
                       Inl e \<Rightarrow> Inl e
                     | Inr text \<Rightarrow> Inr (unhandled_line text)))))"

text \<open>The function as the loaded module offers it; a failed import leaves only its error.\<close>

definition explain :: "pyval \<Rightarrow> error + string" where
  "explain exit_code =
     (case module_init of
        Inl e \<Rightarrow> Inl e
      | Inr st \<Rightarrow> explain_with st NAME_EXPLANATIONS exit_code)"

subsection \<open>is\_memory\_error\<close>

text \<open>
  \<^verbatim>\<open>[globals()[name] for name in _MEMORY_ERROR_NAMES]\<close>: each subscript may raise
  \<^verbatim>\<open>KeyError\<close>.
\<close>

fun lookup_all :: "(string \<rightharpoonup> int) \<Rightarrow> string list \<Rightarrow> error + int list" where
  "lookup_all g [] = Inr []"
| "lookup_all g (name # names) =
     (case g name of
        None \<Rightarrow> Inl KeyError
      | Some code \<Rightarrow>
          (case lookup_all g names of Inl e \<Rightarrow> Inl e | Inr codes \<Rightarrow> Inr (code # codes)))"

text \<open>
  The list of codes is built first; \<^verbatim>\<open>or\<close> then searches the names only when the
  codes do not hold the argument.
\<close>

definition is_memory_error_with :: "module_state \<Rightarrow> string list \<Rightarrow> pyval \<Rightarrow> error + bool" where
  "is_memory_error_with st names exit_code =
     (case lookup_all (globals st) names of
        Inl e \<Rightarrow> Inl e
      | Inr codes \<Rightarrow>
          (case list_has exit_code (map SInt codes) of
             Inl e \<Rightarrow> Inl e
           | Inr b \<Rightarrow> if b then Inr True else list_has exit_code (map SStr names)))"

definition is_memory_error :: "pyval \<Rightarrow> error + bool" where
  "is_memory_error exit_code =
     (case module_init of
        Inl e \<Rightarrow> Inl e
      | Inr st \<Rightarrow> is_memory_error_with st MEMORY_ERROR_NAMES exit_code)"

section \<open>The signal table\<close>

definition NL :: string where
  "NL = [CHR 0x0A]"

text \<open>The text between the triple quotes: a line feed, then each line with its line feed.\<close>

definition LINUX_SIGNALS_TEXT :: string where
  "LINUX_SIGNALS_TEXT = concat
     [
      NL, ''#define SIGHUP          1       /* Hangup (POSIX).  */'',
      NL, ''#define SIGINT          2       /* Interrupt (ANSI).  */'',
      NL, ''#define SIGQUIT         3       /* Quit (POSIX).  */'',
      NL, ''#define SIGILL          4       /* Illegal instruction (ANSI).  */'',
      NL, ''#define SIGTRAP         5       /* Trace trap (POSIX).  */'',
      NL, ''#define SIGABRT         6       /* Abort (ANSI).  */'',
      NL, ''#define SIGIOT          6       /* IOT trap (4.2 BSD).  */'',
      NL, ''#define SIGBUS          7       /* BUS error (4.2 BSD).  */'',
      NL, ''#define SIGFPE          8       /* Floating-point exception (ANSI).  */'',
      NL, ''#define SIGKILL         9       /* Kill, unblockable (POSIX).  */'',
      NL, ''#define SIGUSR1         10      /* User-defined signal 1 (POSIX).  */'',
      NL, ''#define SIGSEGV         11      /* Segmentation violation (ANSI).  */'',
      NL, ''#define SIGUSR2         12      /* User-defined signal 2 (POSIX).  */'',
      NL, ''#define SIGPIPE         13      /* Broken pipe (POSIX).  */'',
      NL, ''#define SIGALRM         14      /* Alarm clock (POSIX).  */'',
      NL, ''#define SIGTERM         15      /* Termination (ANSI).  */'',
      NL, ''#define SIGSTKFLT       16      /* Stack fault.  */'',
      NL, ''#define SIGCHLD         17      /* Child status has changed (POSIX).  */'',
      NL, ''#define SIGCONT         18      /* Continue (POSIX).  */'',
      NL, ''#define SIGSTOP         19      /* Stop, unblockable (POSIX).  */'',
      NL, ''#define SIGTSTP         20      /* Keyboard stop (POSIX).  */'',
      NL, ''#define SIGTTIN         21      /* Background read from tty (POSIX).  */'',
      NL, ''#define SIGTTOU         22      /* Background write to tty (POSIX).  */'',
      NL, ''#define SIGURG          23      /* Urgent condition on socket (4.2 BSD).  */'',
      NL, ''#define SIGXCPU         24      /* CPU limit exceeded (4.2 BSD).  */'',
      NL, ''#define SIGXFSZ         25      /* File size limit exceeded (4.2 BSD).  */'',
      NL, ''#define SIGVTALRM       26      /* Virtual alarm clock (4.2 BSD).  */'',
      NL, ''#define SIGPROF         27      /* Profiling alarm clock (4.2 BSD).  */'',
      NL, ''#define SIGWINCH        28      /* Window size change (4.3 BSD, Sun).  */'',
      NL, ''#define SIGIO           29      /* I/O now possible (4.2 BSD).  */'',
      NL, ''#define SIGPWR          30      /* Power failure restart (System V).  */'',
      NL, ''#define SIGSYS          31      /* Bad system call.  */'',
      NL]"

subsection \<open>The string operations the table is built with\<close>

text \<open>
  Whitespace as \<^verbatim>\<open>str.strip\<close> and the pattern class \<^verbatim>\<open>\s\<close> see it, on the
  code points a \<^typ>\<open>char\<close> holds: tab to carriage return, the four separators
  0x1C to 0x1F, space, 0x85 and 0xA0.
\<close>

definition py_isspace :: "char \<Rightarrow> bool" where
  "py_isspace c =
     (c \<in> set [CHR 0x20, CHR 0x09, CHR 0x0A, CHR 0x0B, CHR 0x0C, CHR 0x0D,
                CHR 0x1C, CHR 0x1D, CHR 0x1E, CHR 0x1F, CHR 0x85, CHR 0xA0])"

definition py_strip :: "string \<Rightarrow> string" where
  "py_strip s = rev (dropWhile py_isspace (rev (dropWhile py_isspace s)))"

text \<open>
  \<^verbatim>\<open>str.splitlines\<close>: a line ends at a line feed, vertical tab, form feed, carriage
  return (with a following line feed), 0x1C, 0x1D, 0x1E or 0x85; the terminator is
  dropped and no empty line follows a final terminator.
\<close>

definition is_linebreak :: "char \<Rightarrow> bool" where
  "is_linebreak c =
     (c \<in> set [CHR 0x0A, CHR 0x0B, CHR 0x0C, CHR 0x0D, CHR 0x1C, CHR 0x1D, CHR 0x1E, CHR 0x85])"

fun splitlines_from :: "string \<Rightarrow> string \<Rightarrow> string list" where
  "splitlines_from cur [] = (if cur = [] then [] else [rev cur])"
| "splitlines_from cur [c] = (if is_linebreak c then [rev cur] else [rev (c # cur)])"
| "splitlines_from cur (c # d # cs) =
     (if c = CHR 0x0D \<and> d = CHR 0x0A then rev cur # splitlines_from [] cs
      else if is_linebreak c then rev cur # splitlines_from [] (d # cs)
      else splitlines_from (c # cur) (d # cs))"

definition py_splitlines :: "string \<Rightarrow> string list" where
  "py_splitlines s = splitlines_from [] s"

text \<open>
  \<^verbatim>\<open>int(s)\<close> on text: surrounding whitespace, an optional sign, then decimal digits
  that single underscores may separate; anything else is a \<^verbatim>\<open>ValueError\<close>
  (\<open>None\<close> here), and so is a text of more digits than the limit. The whitespace
  \<^verbatim>\<open>int\<close> skips is narrower than that of \<^verbatim>\<open>strip\<close>: the separators 0x1C to 0x1F
  are not part of it.
\<close>

definition int_space :: "char \<Rightarrow> bool" where
  "int_space c =
     (c \<in> set [CHR 0x20, CHR 0x09, CHR 0x0A, CHR 0x0B, CHR 0x0C, CHR 0x0D, CHR 0x85, CHR 0xA0])"

definition is_digit :: "char \<Rightarrow> bool" where
  "is_digit c = (c \<in> set ''0123456789'')"

definition digit_val :: "char \<Rightarrow> nat" where
  "digit_val c = of_char c - 48"

fun more_digits :: "nat \<Rightarrow> string \<Rightarrow> nat option" where
  "more_digits acc [] = Some acc"
| "more_digits acc [c] = (if is_digit c then Some (10 * acc + digit_val c) else None)"
| "more_digits acc (c # d # cs) =
     (if is_digit c then more_digits (10 * acc + digit_val c) (d # cs)
      else if c = CHR ''_'' \<and> is_digit d then more_digits (10 * acc + digit_val d) cs
      else None)"

fun decimal :: "string \<Rightarrow> nat option" where
  "decimal [] = None"
| "decimal (c # cs) =
     (if int_max_str_digits < length (filter is_digit (c # cs)) then None
      else if is_digit c then more_digits (digit_val c) cs
      else None)"

definition py_int :: "string \<Rightarrow> int option" where
  "py_int s =
     (case rev (dropWhile int_space (rev (dropWhile int_space s))) of
        [] \<Rightarrow> None
      | c # cs \<Rightarrow>
          if c = CHR ''-'' then map_option (\<lambda>n. - int n) (decimal cs)
          else if c = CHR ''+'' then map_option int (decimal cs)
          else map_option int (decimal (c # cs)))"

text \<open>\<^verbatim>\<open>s[2:-2]\<close>: the text without its first two and last two characters.\<close>

definition slice_2_minus2 :: "string \<Rightarrow> string" where
  "slice_2_minus2 s = drop 2 (take (length s - 2) s)"

subsection \<open>The pattern \<^verbatim>\<open>^\S+\s+(\S+)\s+(\S+)\s+(.*)$\<close>\<close>

text \<open>
  Every \<^verbatim>\<open>\S+\<close> is followed by \<^verbatim>\<open>\s+\<close> and every \<^verbatim>\<open>\s+\<close> but the last by
  \<^verbatim>\<open>\S+\<close>, so a match can only cut the text at the ends of its maximal runs of
  non-blank and blank characters; the last \<^verbatim>\<open>\s+\<close> is greedy and takes its whole run.
  \<^verbatim>\<open>(.*)$\<close> then takes the text up to a line feed, which must be the last character
  if there is one. \<open>None\<close> is \<^verbatim>\<open>re.match\<close> returning \<^verbatim>\<open>None\<close>.
\<close>

definition nonblank_run :: "string \<Rightarrow> (string \<times> string) option" where
  "nonblank_run s =
     (let tok = takeWhile (\<lambda>c. \<not> py_isspace c) s
      in if tok = [] then None else Some (tok, dropWhile (\<lambda>c. \<not> py_isspace c) s))"

definition blank_run :: "string \<Rightarrow> string option" where
  "blank_run s = (if takeWhile py_isspace s = [] then None else Some (dropWhile py_isspace s))"

definition dot_star_end :: "string \<Rightarrow> string option" where
  "dot_star_end s =
     (let body = takeWhile (\<lambda>c. c \<noteq> CHR 0x0A) s;
          rest = dropWhile (\<lambda>c. c \<noteq> CHR 0x0A) s
      in if rest = [] \<or> rest = [CHR 0x0A] then Some body else None)"

text \<open>A non-blank run and the blank run after it; the result is the run and what follows.\<close>

definition field :: "string \<Rightarrow> (string \<times> string) option" where
  "field s =
     (case nonblank_run s of
        None \<Rightarrow> None
      | Some (tok, r) \<Rightarrow> (case blank_run r of None \<Rightarrow> None | Some r' \<Rightarrow> Some (tok, r')))"

definition match_line :: "string \<Rightarrow> (string \<times> string \<times> string) option" where
  "match_line line =
     (case field line of
        None \<Rightarrow> None
      | Some (g0, r0) \<Rightarrow>
          (case field r0 of
             None \<Rightarrow> None
           | Some (g1, r1) \<Rightarrow>
               (case field r1 of
                  None \<Rightarrow> None
                | Some (g2, r2) \<Rightarrow>
                    (case dot_star_end r2 of
                       None \<Rightarrow> None
                     | Some g3 \<Rightarrow> Some (g1, g2, g3)))))"

subsection \<open>Building \<^verbatim>\<open>SIGNUM_EXPLANATION\<close>\<close>

definition signal_entry :: "string \<Rightarrow> string \<Rightarrow> string \<Rightarrow> string" where
  "signal_entry sigid signum sigtext =
     ''Killed by UNIX signal '' @ sigid @ ''['' @ signum @ '']: '' @
     [CHR 0x27] @ sigtext @ [CHR 0x27]"

text \<open>
  The loop body: \<^verbatim>\<open>match.group\<close> on a failed match raises \<^verbatim>\<open>AttributeError\<close>,
  \<^verbatim>\<open>int\<close> on a non-number \<^verbatim>\<open>ValueError\<close>; the f-string formats the number
  again.
\<close>

fun signal_loop :: "string list \<Rightarrow> string dict \<Rightarrow> error + string dict" where
  "signal_loop [] table = Inr table"
| "signal_loop (line # rest) table =
     (case match_line line of
        None \<Rightarrow> Inl AttributeError
      | Some (sigid, numtext, comment) \<Rightarrow>
          (case py_int numtext of
             None \<Rightarrow> Inl ValueError
           | Some signum \<Rightarrow>
               (case str_of_int signum of
                  Inl e \<Rightarrow> Inl e
                | Inr text \<Rightarrow>
                    signal_loop rest
                      (dict_set table (SInt signum)
                         (signal_entry sigid text (py_strip (slice_2_minus2 comment)))))))"

definition SIGNUM_EXPLANATION :: "error + string dict" where
  "SIGNUM_EXPLANATION = signal_loop (py_splitlines (py_strip LINUX_SIGNALS_TEXT)) []"

subsection \<open>explain\_signal\<close>

text \<open>
  \<^verbatim>\<open>"EXIT - " + SIGNUM_EXPLANATION[signum]\<close>: the subscript hashes its key
  (\<^verbatim>\<open>TypeError\<close> on a list) and raises \<^verbatim>\<open>KeyError\<close> when the key is absent.
\<close>

fun explain_signal_with :: "string dict \<Rightarrow> pyval \<Rightarrow> error + string" where
  "explain_signal_with table (PList xs) = Inl TypeError"
| "explain_signal_with table (Scalar signum) =
     (case dict_get table signum of
        None \<Rightarrow> Inl KeyError
      | Some text \<Rightarrow> Inr (''EXIT - '' @ text))"
| "explain_signal_with table (PObject ob) =
     (case obj_hash ob of
        Some e \<Rightarrow> Inl e
      | None \<Rightarrow>
          (case dict_find (obj_key_cmp ob) table of
             Inl e \<Rightarrow> Inl e
           | Inr None \<Rightarrow> Inl KeyError
           | Inr (Some (k, text)) \<Rightarrow> Inr (''EXIT - '' @ text)))"

definition explain_signal :: "pyval \<Rightarrow> error + string" where
  "explain_signal signum =
     (case SIGNUM_EXPLANATION of
        Inl e \<Rightarrow> Inl e
      | Inr table \<Rightarrow> explain_signal_with table signum)"

section \<open>Some arguments\<close>

text \<open>
  The float \<^verbatim>\<open>31.0\<close>: it hashes like the integer 31 and equals it, and equals no other
  integer and no string; its text is \<^verbatim>\<open>31.0\<close>.
\<close>

definition float_31 :: pyval where
  "float_31 =
     PObject \<lparr>obj_hash = None,
              obj_key_cmp = (\<lambda>k. Inr (scalar_eq k (SInt 31))),
              obj_eq = (\<lambda>k. Inr (scalar_eq k (SInt 31))),
              obj_format = Inr ''31.0''\<rparr>"

text \<open>
  The float \<^verbatim>\<open>2.5\<close>: hashable, equal to no integer and no string, with text
  \<^verbatim>\<open>2.5\<close>.
\<close>

definition float_2_5 :: pyval where
  "float_2_5 =
     PObject \<lparr>obj_hash = None,
              obj_key_cmp = (\<lambda>k. Inr False),
              obj_eq = (\<lambda>k. Inr False),
              obj_format = Inr ''2.5''\<rparr>"

text \<open>
  An instance of a class whose \<^verbatim>\<open>__eq__\<close> raises \<^verbatim>\<open>ValueError\<close> and whose
  \<^verbatim>\<open>__str__\<close> returns \<^verbatim>\<open>E\<close>. A class that defines \<^verbatim>\<open>__eq__\<close> alone is
  unhashable.
\<close>

definition eq_raiser :: pyval where
  "eq_raiser =
     PObject \<lparr>obj_hash = Some TypeError,
              obj_key_cmp = (\<lambda>k. Inl ValueError),
              obj_eq = (\<lambda>k. Inl ValueError),
              obj_format = Inr ''E''\<rparr>"

section \<open>Values used in the proofs\<close>

text \<open>What the set-up loop leaves in \<^verbatim>\<open>_CODE_TO_NAME\<close>, as a function of the declared codes.\<close>

fun fill_codes :: "(string \<times> int) list \<Rightarrow> string dict \<Rightarrow> string dict" where
  "fill_codes [] d = d"
| "fill_codes ((name, code) # rest) d =
     fill_codes rest (dict_set (dict_set d (SInt code) name) (SStr (str_int code)) name)"

text \<open>The eight values \<^verbatim>\<open>is_memory_error\<close> compares its argument with.\<close>

definition memory_keys :: "scalar list" where
  "memory_keys =
     [SInt 31, SInt 32, SInt 33, SInt 34,
      SStr ''SUBPROCESS_MEMORY_ERROR'', SStr ''CALDP_MEMORY_ERROR'',
      SStr ''CONTAINER_MEMORY_ERROR'', SStr ''OS_MEMORY_ERROR'']"

definition loaded_code_to_name :: "string dict" where
  "loaded_code_to_name =
     [(SInt 0, ''SUCCESS''), (SStr ''0'', ''SUCCESS''),
      (SInt 1, ''GENERIC_ERROR''), (SStr ''1'', ''GENERIC_ERROR''),
      (SInt 2, ''CMDLINE_ERROR''), (SStr ''2'', ''CMDLINE_ERROR''),
      (SInt 21, ''INPUT_TAR_FILE_ERROR''), (SStr ''21'', ''INPUT_TAR_FILE_ERROR''),
      (SInt 22, ''ASTROQUERY_ERROR''), (SStr ''22'', ''ASTROQUERY_ERROR''),
      (SInt 23, ''STAGE1_ERROR''), (SStr ''23'', ''STAGE1_ERROR''),
      (SInt 24, ''STAGE2_ERROR''), (SStr ''24'', ''STAGE2_ERROR''),
      (SInt 25, ''S3_UPLOAD_ERROR''), (SStr ''25'', ''S3_UPLOAD_ERROR''),
      (SInt 26, ''S3_DOWNLOAD_ERROR''), (SStr ''26'', ''S3_DOWNLOAD_ERROR''),
      (SInt 27, ''BESTREFS_ERROR''), (SStr ''27'', ''BESTREFS_ERROR''),
      (SInt 28, ''CREATE_PREVIEWS_ERROR''), (SStr ''28'', ''CREATE_PREVIEWS_ERROR''),
      (SInt 31, ''SUBPROCESS_MEMORY_ERROR''), (SStr ''31'', ''SUBPROCESS_MEMORY_ERROR''),
      (SInt 32, ''CALDP_MEMORY_ERROR''), (SStr ''32'', ''CALDP_MEMORY_ERROR''),
      (SInt 33, ''CONTAINER_MEMORY_ERROR''), (SStr ''33'', ''CONTAINER_MEMORY_ERROR''),
      (SInt 34, ''OS_MEMORY_ERROR''), (SStr ''34'', ''OS_MEMORY_ERROR''),
      (SInt 40, ''SVM_ERROR''), (SStr ''40'', ''SVM_ERROR''),
      (SInt 41, ''MVM_ERROR''), (SStr ''41'', ''MVM_ERROR'')]"

text \<open>The lines of the signal text, and the text that joins lines with line feeds.\<close>

definition signal_lines :: "string list" where
  "signal_lines =
     [
      ''#define SIGHUP          1       /* Hangup (POSIX).  */'',
      ''#define SIGINT          2       /* Interrupt (ANSI).  */'',
      ''#define SIGQUIT         3       /* Quit (POSIX).  */'',
      ''#define SIGILL          4       /* Illegal instruction (ANSI).  */'',
      ''#define SIGTRAP         5       /* Trace trap (POSIX).  */'',
      ''#define SIGABRT         6       /* Abort (ANSI).  */'',
      ''#define SIGIOT          6       /* IOT trap (4.2 BSD).  */'',
      ''#define SIGBUS          7       /* BUS error (4.2 BSD).  */'',
      ''#define SIGFPE          8       /* Floating-point exception (ANSI).  */'',
      ''#define SIGKILL         9       /* Kill, unblockable (POSIX).  */'',
      ''#define SIGUSR1         10      /* User-defined signal 1 (POSIX).  */'',
      ''#define SIGSEGV         11      /* Segmentation violation (ANSI).  */'',
      ''#define SIGUSR2         12      /* User-defined signal 2 (POSIX).  */'',
      ''#define SIGPIPE         13      /* Broken pipe (POSIX).  */'',
      ''#define SIGALRM         14      /* Alarm clock (POSIX).  */'',
      ''#define SIGTERM         15      /* Termination (ANSI).  */'',
      ''#define SIGSTKFLT       16      /* Stack fault.  */'',
      ''#define SIGCHLD         17      /* Child status has changed (POSIX).  */'',
      ''#define SIGCONT         18      /* Continue (POSIX).  */'',
      ''#define SIGSTOP         19      /* Stop, unblockable (POSIX).  */'',
      ''#define SIGTSTP         20      /* Keyboard stop (POSIX).  */'',
      ''#define SIGTTIN         21      /* Background read from tty (POSIX).  */'',
      ''#define SIGTTOU         22      /* Background write to tty (POSIX).  */'',
      ''#define SIGURG          23      /* Urgent condition on socket (4.2 BSD).  */'',
      ''#define SIGXCPU         24      /* CPU limit exceeded (4.2 BSD).  */'',
      ''#define SIGXFSZ         25      /* File size limit exceeded (4.2 BSD).  */'',
      ''#define SIGVTALRM       26      /* Virtual alarm clock (4.2 BSD).  */'',
      ''#define SIGPROF         27      /* Profiling alarm clock (4.2 BSD).  */'',
      ''#define SIGWINCH        28      /* Window size change (4.3 BSD, Sun).  */'',
      ''#define SIGIO           29      /* I/O now possible (4.2 BSD).  */'',
      ''#define SIGPWR          30      /* Power failure restart (System V).  */'',
      ''#define SIGSYS          31      /* Bad system call.  */'']"

fun join_lines :: "string list \<Rightarrow> string" where
  "join_lines [] = []"
| "join_lines [l] = l"
| "join_lines (l # l' # ls) = l @ NL @ join_lines (l' # ls)"

definition plain_line :: "string \<Rightarrow> bool" where
  "plain_line l = (l \<noteq> [] \<and> list_all (\<lambda>c. \<not> is_linebreak c) l)"

text \<open>The table the signal loop ends with.\<close>

definition signal_table :: "string dict" where
  "signal_table =
     [
      (SInt 1, signal_entry ''SIGHUP'' ''1'' ''Hangup (POSIX).''),
      (SInt 2, signal_entry ''SIGINT'' ''2'' ''Interrupt (ANSI).''),
      (SInt 3, signal_entry ''SIGQUIT'' ''3'' ''Quit (POSIX).''),
      (SInt 4, signal_entry ''SIGILL'' ''4'' ''Illegal instruction (ANSI).''),
      (SInt 5, signal_entry ''SIGTRAP'' ''5'' ''Trace trap (POSIX).''),
      (SInt 6, signal_entry ''SIGIOT'' ''6'' ''IOT trap (4.2 BSD).''),
      (SInt 7, signal_entry ''SIGBUS'' ''7'' ''BUS error (4.2 BSD).''),
      (SInt 8, signal_entry ''SIGFPE'' ''8'' ''Floating-point exception (ANSI).''),
      (SInt 9, signal_entry ''SIGKILL'' ''9'' ''Kill, unblockable (POSIX).''),
      (SInt 10, signal_entry ''SIGUSR1'' ''10'' ''User-defined signal 1 (POSIX).''),
      (SInt 11, signal_entry ''SIGSEGV'' ''11'' ''Segmentation violation (ANSI).''),
      (SInt 12, signal_entry ''SIGUSR2'' ''12'' ''User-defined signal 2 (POSIX).''),
      (SInt 13, signal_entry ''SIGPIPE'' ''13'' ''Broken pipe (POSIX).''),
      (SInt 14, signal_entry ''SIGALRM'' ''14'' ''Alarm clock (POSIX).''),
      (SInt 15, signal_entry ''SIGTERM'' ''15'' ''Termination (ANSI).''),
      (SInt 16, signal_entry ''SIGSTKFLT'' ''16'' ''Stack fault.''),
      (SInt 17, signal_entry ''SIGCHLD'' ''17'' ''Child status has changed (POSIX).''),
      (SInt 18, signal_entry ''SIGCONT'' ''18'' ''Continue (POSIX).''),
      (SInt 19, signal_entry ''SIGSTOP'' ''19'' ''Stop, unblockable (POSIX).''),
      (SInt 20, signal_entry ''SIGTSTP'' ''20'' ''Keyboard stop (POSIX).''),
      (SInt 21, signal_entry ''SIGTTIN'' ''21'' ''Background read from tty (POSIX).''),
      (SInt 22, signal_entry ''SIGTTOU'' ''22'' ''Background write to tty (POSIX).''),
      (SInt 23, signal_entry ''SIGURG'' ''23'' ''Urgent condition on socket (4.2 BSD).''),
      (SInt 24, signal_entry ''SIGXCPU'' ''24'' ''CPU limit exceeded (4.2 BSD).''),
      (SInt 25, signal_entry ''SIGXFSZ'' ''25'' ''File size limit exceeded (4.2 BSD).''),
      (SInt 26, signal_entry ''SIGVTALRM'' ''26'' ''Virtual alarm clock (4.2 BSD).''),
      (SInt 27, signal_entry ''SIGPROF'' ''27'' ''Profiling alarm clock (4.2 BSD).''),
      (SInt 28, signal_entry ''SIGWINCH'' ''28'' ''Window size change (4.3 BSD, Sun).''),
      (SInt 29, signal_entry ''SIGIO'' ''29'' ''I/O now possible (4.2 BSD).''),
      (SInt 30, signal_entry ''SIGPWR'' ''30'' ''Power failure restart (System V).''),
      (SInt 31, signal_entry ''SIGSYS'' ''31'' ''Bad system call.'')]"

section \<open>The loaded module\<close>

lemma fun_upd_other_None: "m \<noteq> n \<Longrightarrow> g m = None \<Longrightarrow> (g(n \<mapsto> c)) m = None"
  by simp

lemma loop_names_free:
  assumes "n \<notin> set loop_names" "list_all (\<lambda>m. g m = None) loop_names"
  shows "list_all (\<lambda>m. (g(n \<mapsto> c)) m = None) loop_names"
proof -
  have "(g(n \<mapsto> c)) m = None" if "m \<in> set loop_names" for m
  proof -
    from that assms(1) have "m \<noteq> n" by blast
    moreover from that assms(2) have "g m = None" by (simp add: list_all_iff)
    ultimately show ?thesis by simp
  qed
  then show ?thesis by (simp add: list_all_iff)
qed

lemma loop_names_mem:
  "''name'' \<in> set loop_names" "''globals'' \<in> set loop_names" "''str'' \<in> set loop_names"
  "''_CODE_TO_NAME'' \<in> set loop_names" "''_NAME_EXPLANATIONS'' \<in> set loop_names"
  "''code'' \<in> set loop_names"
  by (simp_all add: loop_names_def)

lemma for_binds_none: "g ''code'' = None \<Longrightarrow> g ''name'' = None \<Longrightarrow> for_binds g c = g"
  unfolding for_binds_def by (rule ext) simp

lemma init_step:
  assumes "for_binds (globals st) c = globals st" "globals st ''globals'' = None"
    "((globals st)(n \<mapsto> c)) ''_CODE_TO_NAME'' = None" "((globals st)(n \<mapsto> c)) ''str'' = None"
    "((globals st)(n \<mapsto> c)) ''_NAME_EXPLANATIONS'' = None"
    "n \<noteq> ''name''" "str_of_int c = Inr t"
  shows "init_loop expl ((n, c) # codes) st =
      (if map_of expl n = None then Inl AssertionError
       else init_loop expl codes
         \<lparr>globals = (globals st)(n \<mapsto> c),
          code_to_name = dict_set (dict_set (code_to_name st) (SInt c) n) (SStr t) n\<rparr>)"
  by (simp only: init_loop.simps Let_def assms sum.case simp_thms if_False if_True)

lemma init_loop_eq:
  assumes "list_all (\<lambda>(n, c). n \<notin> set loop_names \<and> str_of_int c = Inr (str_int c)) codes"
    and "list_all (\<lambda>n. globals st n = None) loop_names"
  shows "init_loop expl codes st =
     (if list_all (\<lambda>(n, c). map_of expl n \<noteq> None) codes
      then Inr \<lparr>globals = globals st ++ map_of (rev codes),
                code_to_name = fill_codes codes (code_to_name st)\<rparr>
      else Inl AssertionError)"
  using assms
proof (induction codes arbitrary: st)
  case Nil
  show ?case by simp
next
  case (Cons p codes)
  obtain n c where p: "p = (n, c)" by (cases p)
  from Cons.prems(1) have n: "n \<notin> set loop_names" and c: "str_of_int c = Inr (str_int c)"
    and rest: "list_all (\<lambda>(n, c). n \<notin> set loop_names \<and> str_of_int c = Inr (str_int c)) codes"
    by (simp_all add: p)
  let ?g = "(globals st)(n \<mapsto> c)"
  let ?st = "\<lparr>globals = ?g,
             code_to_name = dict_set (dict_set (code_to_name st) (SInt c) n) (SStr (str_int c)) n\<rparr>"
  have g: "list_all (\<lambda>m. ?g m = None) loop_names"
    using n Cons.prems(2) by (rule loop_names_free)
  then have free: "list_all (\<lambda>m. globals ?st m = None) loop_names" by simp
  have pre: "globals st ''globals'' = None"
    using Cons.prems(2) loop_names_mem(2) by (simp add: list_all_iff)
  have "globals st ''code'' = None" "globals st ''name'' = None"
    using Cons.prems(2) loop_names_mem by (simp_all add: list_all_iff)
  then have bound: "for_binds (globals st) c = globals st" by (rule for_binds_none)
  have post: "?g ''_CODE_TO_NAME'' = None" "?g ''str'' = None" "?g ''_NAME_EXPLANATIONS'' = None"
    using g loop_names_mem by (simp_all only: list_all_iff)
  have name: "n \<noteq> ''name''" using n loop_names_mem(1) by blast
  have step: "init_loop expl ((n, c) # codes) st =
      (if map_of expl n = None then Inl AssertionError else init_loop expl codes ?st)"
    using bound pre post name c by (rule init_step)
  have upd: "?g ++ map_of (rev codes) = globals st ++ map_of (rev codes @ [(n, c)])"
    by (rule ext) (simp add: map_add_def split: option.splits)
  have fill: "fill_codes ((n, c) # codes) (code_to_name st) = fill_codes codes (code_to_name ?st)"
    by simp
  show ?case
  proof (cases "map_of expl n = None")
    case True
    then show ?thesis unfolding p step by simp
  next
    case False
    then have "init_loop expl (p # codes) st = init_loop expl codes ?st"
      unfolding p step by (simp only: if_False)
    also note Cons.IH [OF rest free]
    finally show ?thesis using False upd by (simp add: p)
  qed
qed

lemma registry_plain:
  "list_all (\<lambda>(n, c). n \<notin> set loop_names \<and> str_of_int c = Inr (str_int c)) EXIT_CODES"
  by code_simp

lemma registry_complete: "list_all (\<lambda>(n, c). map_of NAME_EXPLANATIONS n \<noteq> None) EXIT_CODES"
  by code_simp

lemma fill_EXIT_CODES: "fill_codes EXIT_CODES [] = loaded_code_to_name"
  by code_simp

lemma module_init_eq:
  "module_init =
     Inr \<lparr>globals = map_of (rev EXIT_CODES), code_to_name = loaded_code_to_name\<rparr>"
proof -
  have "list_all (\<lambda>n. globals \<lparr>globals = Map.empty, code_to_name = []\<rparr> n = None) loop_names"
    by (simp add: loop_names_def)
  from init_loop_eq [OF registry_plain this, of NAME_EXPLANATIONS] registry_complete
  show ?thesis by (simp add: module_init_def build_registry_def fill_EXIT_CODES)
qed

subsection \<open>is\_memory\_error\<close>

lemma memory_codes: "lookup_all (map_of (rev EXIT_CODES)) MEMORY_ERROR_NAMES = Inr [31, 32, 33, 34]"
  by code_simp

lemma is_memory_error_lists:
  "is_memory_error x =
     (case list_has x [SInt 31, SInt 32, SInt 33, SInt 34] of
        Inl e \<Rightarrow> Inl e
      | Inr b \<Rightarrow> if b then Inr True else list_has x (map SStr MEMORY_ERROR_NAMES))"
  unfolding is_memory_error_def module_init_eq
  by (simp add: is_memory_error_with_def memory_codes)

lemma list_has_total:
  "\<forall>k \<in> set ks. \<exists>b. list_cmp x k = Inr b \<Longrightarrow>
   list_has x ks = Inr (\<exists>k \<in> set ks. list_cmp x k = Inr True)"
  by (induction ks) auto

lemma is_memory_error_total:
  assumes "\<forall>k \<in> set memory_keys. \<exists>b. list_cmp x k = Inr b"
  shows "is_memory_error x = Inr (\<exists>k \<in> set memory_keys. list_cmp x k = Inr True)"
proof -
  let ?ints = "[SInt 31, SInt 32, SInt 33, SInt 34]"
  let ?names = "map SStr MEMORY_ERROR_NAMES"
  have split: "memory_keys = ?ints @ ?names"
    by (simp add: memory_keys_def MEMORY_ERROR_NAMES_def)
  from assms have "\<forall>k \<in> set ?ints. \<exists>b. list_cmp x k = Inr b" "\<forall>k \<in> set ?names. \<exists>b. list_cmp x k = Inr b"
    unfolding split by auto
  from list_has_total [OF this(1)] list_has_total [OF this(2)]
  show ?thesis unfolding is_memory_error_lists split by auto
qed

text \<open>
  C1, as the code has it: for an integer, string, boolean, \<^verbatim>\<open>None\<close> or list,
  \<^verbatim>\<open>is_memory_error\<close> returns true exactly for the integers 31, 32, 33, 34 and the four
  memory-error names, false otherwise, and does not raise. For any other object whose
  comparisons with these eight values do not raise it returns true exactly when one of
  them compares equal to the object.
\<close>

theorem is_memory_error_exact:
  "(\<forall>s. is_memory_error (Scalar s) = Inr (s \<in> set memory_keys))
   \<and> (\<forall>xs. is_memory_error (PList xs) = Inr False)
   \<and> (\<forall>ob. (\<forall>k \<in> set memory_keys. \<exists>b. obj_eq ob k = Inr b) \<longrightarrow>
          is_memory_error (PObject ob) = Inr (\<exists>k \<in> set memory_keys. obj_eq ob k = Inr True))"
proof (intro conjI allI impI)
  fix s
  have "is_memory_error (Scalar s) = Inr (\<exists>k \<in> set memory_keys. list_cmp (Scalar s) k = Inr True)"
    by (rule is_memory_error_total) simp
  also have "(\<exists>k \<in> set memory_keys. list_cmp (Scalar s) k = Inr True) = (s \<in> set memory_keys)"
    by (cases s) (auto simp: memory_keys_def)
  finally show "is_memory_error (Scalar s) = Inr (s \<in> set memory_keys)" .
next
  fix xs
  have "is_memory_error (PList xs) = Inr (\<exists>k \<in> set memory_keys. list_cmp (PList xs) k = Inr True)"
    by (rule is_memory_error_total) auto
  then show "is_memory_error (PList xs) = Inr False" by simp
next
  fix ob :: pyobj
  assume "\<forall>k \<in> set memory_keys. \<exists>b. obj_eq ob k = Inr b"
  then have "\<forall>k \<in> set memory_keys. \<exists>b. list_cmp (PObject ob) k = Inr b" by simp
  from is_memory_error_total [OF this]
  show "is_memory_error (PObject ob) = Inr (\<exists>k \<in> set memory_keys. obj_eq ob k = Inr True)" by simp
qed

theorem is_memory_error_exact_witness:
  "is_memory_error (Scalar (SInt 31)) = Inr True \<and> is_memory_error (Scalar (SInt 30)) = Inr False
   \<and> is_memory_error (Scalar (SStr ''OS_MEMORY_ERROR'')) = Inr True
   \<and> is_memory_error (Scalar (SStr ''os_memory_error'')) = Inr False
   \<and> is_memory_error (Scalar SNone) = Inr False
   \<and> is_memory_error (PList [SInt 31]) = Inr False
   \<and> is_memory_error float_2_5 = Inr False"
proof -
  note all = is_memory_error_exact
  from all have s: "is_memory_error (Scalar s) = Inr (s \<in> set memory_keys)" for s
    by (rule conjunct1 [THEN spec])
  from all have l: "is_memory_error (PList xs) = Inr False" for xs
    by (rule conjunct2 [THEN conjunct1, THEN spec])
  from all have ob: "(\<forall>k \<in> set memory_keys. \<exists>b. obj_eq ob k = Inr b) \<longrightarrow>
          is_memory_error (PObject ob) = Inr (\<exists>k \<in> set memory_keys. obj_eq ob k = Inr True)" for ob
    by (rule conjunct2 [THEN conjunct2, THEN spec])
  let ?f = "\<lparr>obj_hash = None, obj_key_cmp = (\<lambda>k. Inr False), obj_eq = (\<lambda>k. Inr False),
             obj_format = Inr ''2.5''\<rparr>"
  have h: "\<forall>k \<in> set memory_keys. \<exists>b. obj_eq ?f k = Inr b" by auto
  from ob [of ?f] h
  have "is_memory_error (PObject ?f) = Inr (\<exists>k \<in> set memory_keys. obj_eq ?f k = Inr True)"
    by (rule mp)
  then have f: "is_memory_error float_2_5 = Inr False" by (simp add: float_2_5_def)
  have m: "SInt 31 \<in> set memory_keys" "SInt 30 \<notin> set memory_keys"
    "SStr ''OS_MEMORY_ERROR'' \<in> set memory_keys" "SStr ''os_memory_error'' \<notin> set memory_keys"
    "SNone \<notin> set memory_keys"
    by (simp_all add: memory_keys_def)
  show ?thesis
    unfolding s l f by (simp only: m simp_thms)
qed

text \<open>
  C1 as stated fails on two arguments: the float \<^verbatim>\<open>31.0\<close> is no integer and no name,
  yet equals 31 and is classified a memory error; and for an object whose \<^verbatim>\<open>__eq__\<close>
  raises, the exception leaves \<^verbatim>\<open>is_memory_error\<close>.
\<close>

theorem is_memory_error_float_and_raise:
  "is_memory_error float_31 = Inr True \<and> is_memory_error eq_raiser = Inl ValueError"
  unfolding is_memory_error_lists
  by (simp add: float_31_def eq_raiser_def)

lemma explain_loaded:
  "explain x =
     explain_with \<lparr>globals = map_of (rev EXIT_CODES), code_to_name = loaded_code_to_name\<rparr>
       NAME_EXPLANATIONS x"
  by (simp add: explain_def module_init_eq)


subsection \<open>explain on declared codes\<close>

lemma explain_agree_all:
  "list_all (\<lambda>(name, code).
       (case map_of NAME_EXPLANATIONS name of
          None \<Rightarrow> False
        | Some explanation \<Rightarrow>
            explain (Scalar (SInt code)) = Inr (exit_line name (str_int code) explanation)
            \<and> explain (Scalar (SStr (str_int code))) = Inr (exit_line name (str_int code) explanation)
            \<and> explain (Scalar (SStr name)) = Inr (exit_line name (str_int code) explanation)))
     EXIT_CODES"
  unfolding explain_loaded by code_simp

text \<open>
  C2: for every declared pair, \<^verbatim>\<open>explain(value)\<close>, \<^verbatim>\<open>explain(str(value))\<close> and
  \<^verbatim>\<open>explain(name)\<close> return the same string.
\<close>

theorem explain_forms_agree:
  "\<forall>(name, code) \<in> set EXIT_CODES.
     explain (Scalar (SInt code)) = explain (Scalar (SStr (str_int code)))
     \<and> explain (Scalar (SInt code)) = explain (Scalar (SStr name))
     \<and> (\<exists>text. explain (Scalar (SInt code)) = Inr text)"
  using explain_agree_all
  by (auto simp: list_all_iff split: option.splits)

theorem explain_forms_agree_witness:
  "explain (Scalar (SInt 31)) = explain (Scalar (SStr ''31''))
   \<and> explain (Scalar (SInt 31)) = explain (Scalar (SStr ''SUBPROCESS_MEMORY_ERROR''))
   \<and> (\<exists>text. explain (Scalar (SInt 31)) = Inr text)"
proof -
  have m: "(''SUBPROCESS_MEMORY_ERROR'', 31) \<in> set EXIT_CODES" by (simp add: EXIT_CODES_def)
  have s: "str_int 31 = ''31''" by code_simp
  from explain_forms_agree m
  have "case (''SUBPROCESS_MEMORY_ERROR'', 31) of (name, code) \<Rightarrow>
     explain (Scalar (SInt code)) = explain (Scalar (SStr (str_int code)))
     \<and> explain (Scalar (SInt code)) = explain (Scalar (SStr name))
     \<and> (\<exists>text. explain (Scalar (SInt code)) = Inr text)"
    by (rule bspec)
  then show ?thesis unfolding s prod.case .
qed

lemma explain_with_code_first:
  "dict_get (code_to_name st) k = Some name \<Longrightarrow> map_of expl name = Some explanation \<Longrightarrow>
   format_scalar k = Inr text \<Longrightarrow>
   explain_with st expl (Scalar k) = Inr (exit_line name text explanation)"
  by simp

lemma explain_with_name_second:
  "dict_get (code_to_name st) (SStr name) = None \<Longrightarrow> map_of expl name = Some explanation \<Longrightarrow>
   globals st name = Some code \<Longrightarrow> str_of_int code = Inr text \<Longrightarrow>
   explain_with st expl (Scalar (SStr name)) = Inr (exit_line name text explanation)"
  by simp

text \<open>
  C5: for every declared code the three forms of the argument give exactly
  \<^verbatim>\<open>EXIT - NAME[value]: explanation\<close>. A key found in \<^verbatim>\<open>_CODE_TO_NAME\<close> is resolved
  there whatever the explanation table holds, a name is tried only when that lookup
  fails, and names match exactly: \<^verbatim>\<open>success\<close> in lower case is unhandled.
\<close>

theorem explain_format:
  "(\<forall>(name, code) \<in> set EXIT_CODES.
      \<exists>explanation.
        map_of NAME_EXPLANATIONS name = Some explanation
        \<and> explain (Scalar (SInt code)) =
            Inr (''EXIT - '' @ name @ ''['' @ str_int code @ '']: '' @ explanation)
        \<and> explain (Scalar (SStr (str_int code))) =
            Inr (''EXIT - '' @ name @ ''['' @ str_int code @ '']: '' @ explanation)
        \<and> explain (Scalar (SStr name)) =
            Inr (''EXIT - '' @ name @ ''['' @ str_int code @ '']: '' @ explanation))
   \<and> (\<forall>st expl k name explanation text.
        dict_get (code_to_name st) k = Some name \<longrightarrow> map_of expl name = Some explanation \<longrightarrow>
        format_scalar k = Inr text \<longrightarrow>
        explain_with st expl (Scalar k) =
          Inr (''EXIT - '' @ name @ ''['' @ text @ '']: '' @ explanation))
   \<and> (\<forall>st expl name explanation code text.
        dict_get (code_to_name st) (SStr name) = None \<longrightarrow>
        map_of expl name = Some explanation \<longrightarrow> globals st name = Some code \<longrightarrow>
        str_of_int code = Inr text \<longrightarrow>
        explain_with st expl (Scalar (SStr name)) =
          Inr (''EXIT - '' @ name @ ''['' @ text @ '']: '' @ explanation))
   \<and> explain (Scalar (SStr ''success'')) = Inr ''EXIT - unhandled exit code: success''"
proof -
  have a: "\<forall>(name, code) \<in> set EXIT_CODES.
      \<exists>explanation.
        map_of NAME_EXPLANATIONS name = Some explanation
        \<and> explain (Scalar (SInt code)) =
            Inr (''EXIT - '' @ name @ ''['' @ str_int code @ '']: '' @ explanation)
        \<and> explain (Scalar (SStr (str_int code))) =
            Inr (''EXIT - '' @ name @ ''['' @ str_int code @ '']: '' @ explanation)
        \<and> explain (Scalar (SStr name)) =
            Inr (''EXIT - '' @ name @ ''['' @ str_int code @ '']: '' @ explanation)"
    using explain_agree_all
    by (auto simp: list_all_iff exit_line_def split: option.splits)
  have d: "explain (Scalar (SStr ''success'')) = Inr ''EXIT - unhandled exit code: success''"
    unfolding explain_loaded by code_simp
  show ?thesis
    using a d explain_with_code_first explain_with_name_second
    by (simp add: exit_line_def)
qed

theorem explain_format_witness:
  "explain (Scalar (SInt 0)) = Inr ''EXIT - SUCCESS[0]: Processing completed successfully.''
   \<and> explain (Scalar (SStr ''0'')) = Inr ''EXIT - SUCCESS[0]: Processing completed successfully.''
   \<and> explain (Scalar (SStr ''SUCCESS'')) = Inr ''EXIT - SUCCESS[0]: Processing completed successfully.''
   \<and> explain_with \<lparr>globals = [''X'' \<mapsto> 5], code_to_name = [(SStr ''X'', ''Y'')]\<rparr>
         [(''X'', ''ex''), (''Y'', ''ey'')] (Scalar (SStr ''X'')) = Inr ''EXIT - Y[X]: ey''
   \<and> explain_with \<lparr>globals = [''X'' \<mapsto> 5], code_to_name = [(SStr ''Z'', ''Y'')]\<rparr>
         [(''X'', ''ex''), (''Y'', ''ey'')] (Scalar (SStr ''X'')) = Inr ''EXIT - X[5]: ex''"
proof -
  let ?st = "\<lparr>globals = [''X'' \<mapsto> 5], code_to_name = [(SStr ''X'', ''Y'')]\<rparr>"
  let ?st' = "\<lparr>globals = [''X'' \<mapsto> 5], code_to_name = [(SStr ''Z'', ''Y'')]\<rparr>"
  let ?expl = "[(''X'', ''ex''), (''Y'', ''ey'')]"
  have m: "(''SUCCESS'', 0) \<in> set EXIT_CODES" by (simp add: EXIT_CODES_def)
  have s: "str_int 0 = ''0''" and s5: "str_of_int 5 = Inr ''5''" by code_simp+
  have e: "map_of NAME_EXPLANATIONS ''SUCCESS'' = Some ''Processing completed successfully.''"
    by (simp add: NAME_EXPLANATIONS_def)
  from explain_format have
    "\<forall>(name, code) \<in> set EXIT_CODES.
      \<exists>explanation.
        map_of NAME_EXPLANATIONS name = Some explanation
        \<and> explain (Scalar (SInt code)) =
            Inr (''EXIT - '' @ name @ ''['' @ str_int code @ '']: '' @ explanation)
        \<and> explain (Scalar (SStr (str_int code))) =
            Inr (''EXIT - '' @ name @ ''['' @ str_int code @ '']: '' @ explanation)
        \<and> explain (Scalar (SStr name)) =
            Inr (''EXIT - '' @ name @ ''['' @ str_int code @ '']: '' @ explanation)"
    by (rule conjunct1)
  from bspec [OF this m] have 1:
    "explain (Scalar (SInt 0)) = Inr ''EXIT - SUCCESS[0]: Processing completed successfully.''
     \<and> explain (Scalar (SStr ''0'')) = Inr ''EXIT - SUCCESS[0]: Processing completed successfully.''
     \<and> explain (Scalar (SStr ''SUCCESS'')) = Inr ''EXIT - SUCCESS[0]: Processing completed successfully.''"
    by (simp add: e s)
  have g: "dict_get (code_to_name ?st) (SStr ''X'') = Some ''Y''" "map_of ?expl ''Y'' = Some ''ey''"
    "format_scalar (SStr ''X'') = Inr ''X''"
    by simp_all
  from explain_format have
    "\<forall>st expl k name explanation text.
        dict_get (code_to_name st) k = Some name \<longrightarrow> map_of expl name = Some explanation \<longrightarrow>
        format_scalar k = Inr text \<longrightarrow>
        explain_with st expl (Scalar k) =
          Inr (''EXIT - '' @ name @ ''['' @ text @ '']: '' @ explanation)"
    by (rule conjunct2 [THEN conjunct1])
  then have "explain_with ?st ?expl (Scalar (SStr ''X'')) =
          Inr (''EXIT - '' @ ''Y'' @ ''['' @ ''X'' @ '']: '' @ ''ey'')"
    using g by blast
  then have 2: "explain_with ?st ?expl (Scalar (SStr ''X'')) = Inr ''EXIT - Y[X]: ey''" by simp
  have g': "dict_get (code_to_name ?st') (SStr ''X'') = None" "map_of ?expl ''X'' = Some ''ex''"
    "globals ?st' ''X'' = Some 5"
    by simp_all
  from explain_format have
    "\<forall>st expl name explanation code text.
        dict_get (code_to_name st) (SStr name) = None \<longrightarrow>
        map_of expl name = Some explanation \<longrightarrow> globals st name = Some code \<longrightarrow>
        str_of_int code = Inr text \<longrightarrow>
        explain_with st expl (Scalar (SStr name)) =
          Inr (''EXIT - '' @ name @ ''['' @ text @ '']: '' @ explanation)"
    by (rule conjunct2 [THEN conjunct2, THEN conjunct1])
  then have "explain_with ?st' ?expl (Scalar (SStr ''X'')) =
          Inr (''EXIT - '' @ ''X'' @ ''['' @ ''5'' @ '']: '' @ ''ex'')"
    using g' s5 by blast
  then have 3: "explain_with ?st' ?expl (Scalar (SStr ''X'')) = Inr ''EXIT - X[5]: ex''"
    by simp
  from 1 2 3 show ?thesis by (intro conjI) (elim conjE, assumption)+
qed

subsection \<open>Unknown input\<close>

lemma scalar_eq_sym: "scalar_eq a b = scalar_eq b a"
  by (cases a; cases b) auto

lemma scalar_eq_trans: "scalar_eq a b \<Longrightarrow> scalar_eq b c \<Longrightarrow> scalar_eq a c"
  by (cases a; cases b; cases c) (auto split: if_splits)

lemma dict_get_set:
  "dict_get (dict_set d k' v) k = (if scalar_eq k' k then Some v else dict_get d k)"
proof (induction d)
  case Nil
  show ?case by simp
next
  case (Cons p d)
  obtain k0 v0 where p: "p = (k0, v0)" by (cases p)
  show ?case
  proof (cases "scalar_eq k0 k'")
    case True
    then have "scalar_eq k0 k = scalar_eq k' k"
      using scalar_eq_trans scalar_eq_sym by blast
    with True show ?thesis by (simp add: p)
  next
    case False
    then have "\<not> (scalar_eq k0 k \<and> scalar_eq k' k)"
      using scalar_eq_trans scalar_eq_sym by blast
    with False show ?thesis by (auto simp: p Cons.IH)
  qed
qed


lemma module_init_fill:
  "module_init =
     Inr \<lparr>globals = map_of (rev EXIT_CODES), code_to_name = fill_codes EXIT_CODES []\<rparr>"
  by (simp add: module_init_eq fill_EXIT_CODES)













subsection \<open>The registry as a bijection\<close>

lemma names_distinct: "distinct (map fst EXIT_CODES)"
  by (simp add: EXIT_CODES_def)

lemma values_distinct: "distinct (map snd EXIT_CODES)"
  by (simp add: EXIT_CODES_def)

lemma globals_graph: "(map_of (rev EXIT_CODES) name = Some code) = ((name, code) \<in> set EXIT_CODES)"
proof -
  have "distinct (map fst (rev EXIT_CODES))" using names_distinct by (simp add: rev_map [symmetric])
  from map_of_eq_Some_iff [OF this] show ?thesis by simp
qed

lemma dict_get_fill_Some:
  "distinct (map snd codes) \<Longrightarrow> 
   dict_get (fill_codes codes d) (SInt v) = Some n \<longleftrightarrow>
     (if v \<in> snd ` set codes then (n, v) \<in> set codes else dict_get d (SInt v) = Some n)"
proof (induction codes arbitrary: d)
  case Nil
  show ?case by simp
next
  case (Cons p codes)
  obtain n' c where p: "p = (n', c)" by (cases p)
  from Cons.prems have d: "distinct (map snd codes)" and c: "c \<notin> snd ` set codes" by (simp_all add: p)
  have c': "(m, c) \<notin> set codes" for m using c by force
  show ?case unfolding p using c c' by (auto simp: Cons.IH [OF d] dict_get_set)
qed

text \<open>
  C7: no two declared codes share a name or a value, so two declared pairs have the same
  name exactly when they have the same value; in the loaded module the injected globals
  (name to value) and \<^verbatim>\<open>_CODE_TO_NAME\<close> (value to name) both have the declared pairs,
  and nothing else, as their graph.
\<close>

theorem registry_bijection:
  "distinct (map fst EXIT_CODES) \<and> distinct (map snd EXIT_CODES)
   \<and> (\<forall>(name, code) \<in> set EXIT_CODES. \<forall>(name', code') \<in> set EXIT_CODES.
         (name = name') = (code = code'))
   \<and> (\<exists>st. module_init = Inr st
         \<and> (\<forall>name code. (globals st name = Some code) = ((name, code) \<in> set EXIT_CODES))
         \<and> (\<forall>name code.
               (dict_get (code_to_name st) (SInt code) = Some name) = ((name, code) \<in> set EXIT_CODES)))"
proof -
  have inj: "\<forall>(name, code) \<in> set EXIT_CODES. \<forall>(name', code') \<in> set EXIT_CODES.
         (name = name') = (code = code')"
  proof clarify
    fix n c n' c'
    assume m: "(n, c) \<in> set EXIT_CODES" "(n', c') \<in> set EXIT_CODES"
    have "inj_on fst (set EXIT_CODES)" "inj_on snd (set EXIT_CODES)"
      using names_distinct values_distinct by (simp_all add: distinct_map)
    from inj_onD [OF this(1), of "(n, c)" "(n', c')"] inj_onD [OF this(2), of "(n, c)" "(n', c')"] m
    show "(n = n') = (c = c')" by auto
  qed
  have c2n: "(dict_get (fill_codes EXIT_CODES []) (SInt code) = Some name) = ((name, code) \<in> set EXIT_CODES)"
    for name code
  proof (cases "code \<in> snd ` set EXIT_CODES")
    case True
    then show ?thesis unfolding dict_get_fill_Some [OF values_distinct] by simp
  next
    case False
    then have "(name, code) \<notin> set EXIT_CODES" by force
    with False show ?thesis unfolding dict_get_fill_Some [OF values_distinct] by simp
  qed
  show ?thesis
    using names_distinct values_distinct inj globals_graph c2n
    by (simp add: module_init_fill)
qed

theorem registry_bijection_witness:
  "(''OS_MEMORY_ERROR'' = ''SVM_ERROR'') = ((34::int) = 40)
   \<and> (\<exists>st. module_init = Inr st
         \<and> globals st ''SVM_ERROR'' = Some 40 \<and> globals st ''SVM_ERROR'' \<noteq> Some 41
         \<and> dict_get (code_to_name st) (SInt 40) = Some ''SVM_ERROR''
         \<and> dict_get (code_to_name st) (SInt 40) \<noteq> Some ''MVM_ERROR'')"
proof -
  have m: "(''OS_MEMORY_ERROR'', 34) \<in> set EXIT_CODES" "(''SVM_ERROR'', 40) \<in> set EXIT_CODES"
    "(''SVM_ERROR'', 41) \<notin> set EXIT_CODES" "(''MVM_ERROR'', 40) \<notin> set EXIT_CODES"
    by (simp_all add: EXIT_CODES_def)
  from registry_bijection
  have a: "\<forall>(name, code) \<in> set EXIT_CODES. \<forall>(name', code') \<in> set EXIT_CODES.
         (name = name') = (code = code')"
    by (elim conjE)
  have "case (''OS_MEMORY_ERROR'', 34::int) of (name, code) \<Rightarrow>
          \<forall>(name', code') \<in> set EXIT_CODES. (name = name') = (code = code')"
    using a m(1) by (rule bspec)
  then have c: "\<forall>(name', code') \<in> set EXIT_CODES. (''OS_MEMORY_ERROR'' = name') = ((34::int) = code')"
    by (simp only: prod.case)
  have "case (''SVM_ERROR'', 40::int) of (name', code') \<Rightarrow>
          (''OS_MEMORY_ERROR'' = name') = ((34::int) = code')"
    using c m(2) by (rule bspec)
  then have 1: "(''OS_MEMORY_ERROR'' = ''SVM_ERROR'') = ((34::int) = 40)"
    by (simp only: prod.case)
  from registry_bijection obtain st where st: "module_init = Inr st"
    "\<forall>name code. (globals st name = Some code) = ((name, code) \<in> set EXIT_CODES)"
    "\<forall>name code. (dict_get (code_to_name st) (SInt code) = Some name) = ((name, code) \<in> set EXIT_CODES)"
    by (elim conjE exE)
  have 2: "globals st ''SVM_ERROR'' = Some 40 \<and> globals st ''SVM_ERROR'' \<noteq> Some 41
         \<and> dict_get (code_to_name st) (SInt 40) = Some ''SVM_ERROR''
         \<and> dict_get (code_to_name st) (SInt 40) \<noteq> Some ''MVM_ERROR''"
    using m by (simp only: st(2,3) simp_thms)
  show ?thesis
    by (rule conjI [OF 1]) (rule exI [of _ st], rule conjI [OF st(1) 2])
qed

subsection \<open>What construction checks\<close>

lemma str_of_int_short:
  "length (str_nat (nat \<bar>i\<bar>)) \<le> int_max_str_digits \<Longrightarrow> str_of_int i = Inr (str_int i)"
  by (simp add: str_of_int_def)

text \<open>
  C8, as the code has it: when no declared name is one the loop itself reads or binds
  (\<^verbatim>\<open>name\<close>, \<^verbatim>\<open>code\<close>, \<^verbatim>\<open>globals\<close>, \<^verbatim>\<open>str\<close>, \<^verbatim>\<open>_CODE_TO_NAME\<close>,
  \<^verbatim>\<open>_NAME_EXPLANATIONS\<close>) and every value is within the digit limit of \<^verbatim>\<open>str\<close>,
  construction raises \<^verbatim>\<open>AssertionError\<close> exactly when some declared name has no
  explanation entry, and otherwise completes with every declared pair written; the
  loop has no check on the values.
\<close>

theorem build_registry_assertion:
  assumes "\<forall>(name, code) \<in> set codes.
             name \<notin> set loop_names \<and> length (str_nat (nat \<bar>code\<bar>)) \<le> int_max_str_digits"
  shows "build_registry expl codes =
     (if \<exists>(name, code) \<in> set codes. map_of expl name = None
      then Inl AssertionError
      else Inr \<lparr>globals = map_of (rev codes), code_to_name = fill_codes codes []\<rparr>)"
proof -
  from assms have plain:
    "list_all (\<lambda>(n, c). n \<notin> set loop_names \<and> str_of_int c = Inr (str_int c)) codes"
    unfolding list_all_iff using str_of_int_short by fast
  have free: "list_all (\<lambda>n. globals \<lparr>globals = Map.empty, code_to_name = []\<rparr> n = None) loop_names"
    by (simp add: list_all_iff)
  show ?thesis
    unfolding build_registry_def init_loop_eq [OF plain free]
    by (auto simp: list_all_iff)
qed

theorem build_registry_assertion_witness:
  "build_registry [(''A'', ''a'')] [(''A'', 1), (''B'', 2)] = Inl AssertionError
   \<and> build_registry [(''A'', ''a''), (''B'', ''b'')] [(''A'', 1), (''B'', 2)] =
       Inr \<lparr>globals = map_of [(''B'', 2), (''A'', 1)],
            code_to_name = [(SInt 1, ''A''), (SStr ''1'', ''A''), (SInt 2, ''B''), (SStr ''2'', ''B'')]\<rparr>"
proof -
  have s: "str_int 1 = ''1''" "str_int 2 = ''2''" by code_simp+
  have h: "\<forall>(name, code) \<in> set [(''A'', 1), (''B'', 2)].
             name \<notin> set loop_names \<and> length (str_nat (nat \<bar>code\<bar>)) \<le> int_max_str_digits"
    by code_simp
  show ?thesis
    using build_registry_assertion [OF h, of "[(''A'', ''a'')]"]
      build_registry_assertion [OF h, of "[(''A'', ''a''), (''B'', ''b'')]"]
    by (simp add: s)
qed

text \<open>
  C8 as stated fails when two names share a value: with \<^verbatim>\<open>A=1, B=1\<close>, both explained,
  construction completes and \<^verbatim>\<open>_CODE_TO_NAME\<close> keeps only the later name.
\<close>

theorem build_registry_duplicate_value:
  "map_sum id code_to_name
     (build_registry [(''A'', ''a''), (''B'', ''b'')] [(''A'', 1), (''B'', 1)]) =
   Inr [(SInt 1, ''B''), (SStr ''1'', ''B'')]"
  by code_simp

text \<open>
  Declared names that rebind what the loop reads: a pair named \<^verbatim>\<open>name\<close> fails the
  assertion although it is explained, and a pair named \<^verbatim>\<open>_NAME_EXPLANATIONS\<close>,
  \<^verbatim>\<open>_CODE_TO_NAME\<close> or \<^verbatim>\<open>str\<close> ends in a \<^verbatim>\<open>TypeError\<close>; a pair named
  \<^verbatim>\<open>globals\<close> breaks the next turn of the loop; a global \<^verbatim>\<open>code\<close> ends as the
  last pair's code.
\<close>

lemma build_registry_rebound:
  "map_sum id code_to_name (build_registry [(''name'', ''x'')] [(''name'', 5)]) =
     Inl AssertionError"
  "map_sum id code_to_name
     (build_registry [(''_NAME_EXPLANATIONS'', ''x'')] [(''_NAME_EXPLANATIONS'', 1)]) =
     Inl TypeError"
  "map_sum id code_to_name (build_registry [(''_CODE_TO_NAME'', ''x'')] [(''_CODE_TO_NAME'', 1)]) =
     Inl TypeError"
  "map_sum id code_to_name (build_registry [(''str'', ''x'')] [(''str'', 1)]) = Inl TypeError"
  "map_sum id code_to_name
     (build_registry [(''globals'', ''x''), (''A'', ''a'')] [(''globals'', 1), (''A'', 2)]) =
     Inl TypeError"
  "map_sum id (\<lambda>st. globals st ''code'')
     (build_registry [(''code'', ''x''), (''A'', ''a'')] [(''code'', 5), (''A'', 2)]) =
     Inr (Some 2)"
  by code_simp+

section \<open>The loaded signal table\<close>

subsection \<open>The lines of the signal text\<close>

lemma splitlines_from_line:
  "list_all (\<lambda>c. \<not> is_linebreak c) l \<Longrightarrow>
   splitlines_from cur (l @ CHR 0x0A # rest) = (rev cur @ l) # splitlines_from [] rest"
proof (induction l arbitrary: cur)
  case Nil
  show ?case by (cases rest) (simp_all add: is_linebreak_def)
next
  case (Cons c l)
  then have c: "\<not> is_linebreak c" and l: "list_all (\<lambda>c. \<not> is_linebreak c) l" by simp_all
  obtain d ds where r: "l @ CHR 0x0A # rest = d # ds" by (cases l) auto
  have "c \<noteq> CHR 0x0D" using c by (auto simp: is_linebreak_def)
  then have "splitlines_from cur ((c # l) @ CHR 0x0A # rest) = splitlines_from (c # cur) (l @ CHR 0x0A # rest)"
    using c r by simp
  also have "\<dots> = (rev (c # cur) @ l) # splitlines_from [] rest" using Cons.IH [OF l] .
  finally show ?case by simp
qed

lemma splitlines_from_last:
  "list_all (\<lambda>c. \<not> is_linebreak c) l \<Longrightarrow> cur @ l \<noteq> [] \<Longrightarrow> splitlines_from cur l = [rev cur @ l]"
proof (induction l arbitrary: cur)
  case Nil
  then show ?case by simp
next
  case (Cons c l)
  then have c: "\<not> is_linebreak c" and l: "list_all (\<lambda>c. \<not> is_linebreak c) l" by simp_all
  have ih: "splitlines_from (c # cur) l = [rev (c # cur) @ l]" using Cons.IH [OF l] by simp
  show ?case
  proof (cases l)
    case Nil
    then show ?thesis using c by simp
  next
    case (Cons d ds)
    have "c \<noteq> CHR 0x0D" using c by (auto simp: is_linebreak_def)
    then have "splitlines_from cur (c # l) = splitlines_from (c # cur) l" using c Cons by simp
    then show ?thesis using ih by simp
  qed
qed

lemma splitlines_join:
  "ls \<noteq> [] \<Longrightarrow> list_all plain_line ls \<Longrightarrow> py_splitlines (join_lines ls) = ls"
  unfolding py_splitlines_def
proof (induction ls rule: join_lines.induct)
  case 1
  then show ?case by simp
next
  case (2 l)
  then show ?case by (simp add: plain_line_def splitlines_from_last)
next
  case (3 l l' ls)
  then have "list_all (\<lambda>c. \<not> is_linebreak c) l" by (simp add: plain_line_def)
  from splitlines_from_line [OF this, of "[]" "join_lines (l' # ls)"] 3
  show ?case by (simp add: NL_def)
qed

lemma py_strip_between:
  "s \<noteq> [] \<Longrightarrow> \<not> py_isspace (hd s) \<Longrightarrow> \<not> py_isspace (last s) \<Longrightarrow> py_strip (NL @ s @ NL) = s"
proof -
  assume s: "s \<noteq> []" and h: "\<not> py_isspace (hd s)" and l: "\<not> py_isspace (last s)"
  have nl: "py_isspace (CHR 0x0A)" by (simp add: py_isspace_def)
  have 1: "dropWhile py_isspace (NL @ s @ NL) = s @ NL"
    using s h nl by (cases s) (simp_all add: NL_def)
  have 2: "dropWhile py_isspace (rev (s @ NL)) = rev s"
    using s l nl by (cases s rule: rev_cases) (simp_all add: NL_def)
  show ?thesis unfolding py_strip_def 1 2 by simp
qed

lemma hd_join: "ls \<noteq> [] \<Longrightarrow> list_all plain_line ls \<Longrightarrow> hd (join_lines ls) = hd (hd ls)"
  by (induction ls rule: join_lines.induct) (simp_all add: plain_line_def)

lemma join_nonempty: "ls \<noteq> [] \<Longrightarrow> list_all plain_line ls \<Longrightarrow> join_lines ls \<noteq> []"
  by (induction ls rule: join_lines.induct) (simp_all add: plain_line_def)

lemma last_join: "ls \<noteq> [] \<Longrightarrow> list_all plain_line ls \<Longrightarrow> last (join_lines ls) = last (last ls)"
proof (induction ls rule: join_lines.induct)
  case (3 l l' ls)
  then have "join_lines (l' # ls) \<noteq> []" by (intro join_nonempty) simp_all
  with 3 show ?case by (simp add: NL_def)
qed simp_all

lemma signal_lines_plain: "list_all plain_line signal_lines"
  by code_simp

lemma signal_lines_ends:
  "signal_lines \<noteq> [] \<and> \<not> py_isspace (hd (hd signal_lines)) \<and> \<not> py_isspace (last (last signal_lines))"
  by code_simp

lemma text_shape: "LINUX_SIGNALS_TEXT = NL @ join_lines signal_lines @ NL"
  unfolding LINUX_SIGNALS_TEXT_def signal_lines_def
  by (simp only: concat.simps join_lines.simps append_assoc append_Nil2)

lemma text_lines: "py_splitlines (py_strip LINUX_SIGNALS_TEXT) = signal_lines"
proof -
  have ne: "signal_lines \<noteq> []" using signal_lines_ends by simp
  have "py_strip LINUX_SIGNALS_TEXT = join_lines signal_lines"
    unfolding text_shape
    using signal_lines_ends signal_lines_plain
    by (intro py_strip_between) (simp_all add: hd_join last_join join_nonempty)
  then show ?thesis using splitlines_join [OF ne signal_lines_plain] by simp
qed

subsection \<open>The signal table\<close>

lemma signal_loop_lines: "signal_loop signal_lines [] = Inr signal_table"
  by code_simp

lemma SIGNUM_EXPLANATION_eq: "SIGNUM_EXPLANATION = Inr signal_table"
  by (simp add: SIGNUM_EXPLANATION_def text_lines signal_loop_lines)

lemma explain_signal_loaded: "explain_signal x = explain_signal_with signal_table x"
  by (simp add: explain_signal_def SIGNUM_EXPLANATION_eq)

lemma signal_keys: "map fst signal_table = map SInt [1..31]"
  by code_simp

lemma dict_get_None_iff: "dict_get d k = None \<longleftrightarrow> (\<forall>k' \<in> set (map fst d). \<not> scalar_eq k' k)"
proof (induction d)
  case Nil
  show ?case by simp
next
  case (Cons p d)
  obtain k0 v0 where p: "p = (k0, v0)" by (cases p)
  show ?case unfolding p by (simp add: Cons.IH)
qed

lemma signal_table_int: "dict_get signal_table (SInt i) = None \<longleftrightarrow> i < 1 \<or> 31 < i"
  unfolding dict_get_None_iff signal_keys by auto

text \<open>
  C4: for every integer outside 1 to 31 the subscript \<^verbatim>\<open>SIGNUM_EXPLANATION[signum]\<close>
  raises \<^verbatim>\<open>KeyError\<close>, which \<^verbatim>\<open>explain_signal\<close> lets through; no string comes back.
\<close>

theorem explain_signal_out_of_range:
  "i < 1 \<or> 31 < i \<Longrightarrow> explain_signal (Scalar (SInt i)) = Inl KeyError"
  unfolding explain_signal_loaded using signal_table_int [of i] by simp

theorem explain_signal_out_of_range_witness:
  "explain_signal (Scalar (SInt 0)) = Inl KeyError \<and> explain_signal (Scalar (SInt 99)) = Inl KeyError
   \<and> explain_signal (Scalar (SInt (- 9))) = Inl KeyError"
  using explain_signal_out_of_range [of 0] explain_signal_out_of_range [of 99]
    explain_signal_out_of_range [of "- 9"]
  by simp

text \<open>
  C6: the results for signals 8 and 11, in the form
  \<^verbatim>\<open>EXIT - Killed by UNIX signal SIGNAME[signum]: 'description'\<close>, with the parts the
  claim names inside them.
\<close>

theorem explain_signal_8_11:
  "explain_signal (Scalar (SInt 8)) =
     Inr (''EXIT - Killed by UNIX signal '' @ ''SIGFPE'' @ ''['' @ str_int 8 @ '']: '' @
          [CHR 0x27] @ ''Floating-point exception (ANSI).'' @ [CHR 0x27])
   \<and> explain_signal (Scalar (SInt 11)) =
     Inr (''EXIT - Killed by UNIX signal '' @ ''SIGSEGV'' @ ''['' @ str_int 11 @ '']: '' @
          [CHR 0x27] @ ''Segmentation violation (ANSI).'' @ [CHR 0x27])
   \<and> str_int 8 = ''8'' \<and> str_int 11 = ''11''
   \<and> map_sum id (sublist ''SIGFPE[8]'') (explain_signal (Scalar (SInt 8))) = Inr True
   \<and> map_sum id (sublist ''Floating-point exception'') (explain_signal (Scalar (SInt 8))) = Inr True
   \<and> map_sum id (sublist ''SIGSEGV[11]'') (explain_signal (Scalar (SInt 11))) = Inr True
   \<and> map_sum id (sublist ''Segmentation violation'') (explain_signal (Scalar (SInt 11))) = Inr True"
  unfolding explain_signal_loaded by code_simp

text \<open>
  C10: the table is built without error, its keys are exactly the integers 1 to 31, so
  \<^verbatim>\<open>explain_signal\<close> returns a string for exactly those integers; lines 6 and 7 of
  the text both declare signal 6, \<^verbatim>\<open>SIGABRT\<close> first and \<^verbatim>\<open>SIGIOT\<close> second, and the
  stored entry is the one of \<^verbatim>\<open>SIGIOT\<close>.
\<close>

theorem signal_table_domain:
  "(\<exists>table. SIGNUM_EXPLANATION = Inr table \<and> map fst table = map SInt [1..31]
      \<and> dict_get table (SInt 6) =
          Some (''Killed by UNIX signal SIGIOT[6]: '' @ [CHR 0x27] @ ''IOT trap (4.2 BSD).'' @ [CHR 0x27]))
   \<and> (\<forall>i. (\<exists>text. explain_signal (Scalar (SInt i)) = Inr text) = (1 \<le> i \<and> i \<le> 31))
   \<and> map match_line (take 2 (drop 5 (py_splitlines (py_strip LINUX_SIGNALS_TEXT)))) =
       [Some (''SIGABRT'', ''6'', ''/* Abort (ANSI).  */''),
        Some (''SIGIOT'', ''6'', ''/* IOT trap (4.2 BSD).  */'')]
   \<and> explain_signal (Scalar (SInt 6)) =
       Inr (''EXIT - Killed by UNIX signal SIGIOT[6]: '' @ [CHR 0x27] @ ''IOT trap (4.2 BSD).'' @ [CHR 0x27])
   \<and> map_sum id (sublist ''SIGABRT'') (explain_signal (Scalar (SInt 6))) = Inr False"
proof -
  have six: "dict_get signal_table (SInt 6) =
          Some (''Killed by UNIX signal SIGIOT[6]: '' @ [CHR 0x27] @ ''IOT trap (4.2 BSD).'' @ [CHR 0x27])"
    by code_simp
  have 1: "\<exists>table. SIGNUM_EXPLANATION = Inr table \<and> map fst table = map SInt [1..31]
      \<and> dict_get table (SInt 6) =
          Some (''Killed by UNIX signal SIGIOT[6]: '' @ [CHR 0x27] @ ''IOT trap (4.2 BSD).'' @ [CHR 0x27])"
    using SIGNUM_EXPLANATION_eq signal_keys six by (intro exI [of _ signal_table] conjI)
  have 2: "(\<exists>text. explain_signal (Scalar (SInt i)) = Inr text) = (1 \<le> i \<and> i \<le> 31)" for i
    unfolding explain_signal_loaded using signal_table_int [of i]
    by (cases "dict_get signal_table (SInt i)") auto
  have 3: "map match_line (take 2 (drop 5 (py_splitlines (py_strip LINUX_SIGNALS_TEXT)))) =
       [Some (''SIGABRT'', ''6'', ''/* Abort (ANSI).  */''),
        Some (''SIGIOT'', ''6'', ''/* IOT trap (4.2 BSD).  */'')]"
    unfolding text_lines by code_simp
  have 4: "explain_signal (Scalar (SInt 6)) =
       Inr (''EXIT - Killed by UNIX signal SIGIOT[6]: '' @ [CHR 0x27] @ ''IOT trap (4.2 BSD).'' @ [CHR 0x27])"
    unfolding explain_signal_loaded by code_simp
  have 5: "map_sum id (sublist ''SIGABRT'') (explain_signal (Scalar (SInt 6))) = Inr False"
    unfolding explain_signal_loaded by code_simp
  from 1 2 3 4 5 show ?thesis by (intro conjI allI)
qed

theorem signal_table_domain_witness:
  "(\<exists>text. explain_signal (Scalar (SInt 1)) = Inr text)
   \<and> (\<exists>text. explain_signal (Scalar (SInt 31)) = Inr text)
   \<and> \<not> (\<exists>text. explain_signal (Scalar (SInt 0)) = Inr text)
   \<and> \<not> (\<exists>text. explain_signal (Scalar (SInt 32)) = Inr text)"
proof -
  from signal_table_domain
  have a: "\<forall>i. (\<exists>text. explain_signal (Scalar (SInt i)) = Inr text) = (1 \<le> i \<and> i \<le> 31)"
    by (elim conjE)
  from spec [OF a, of 1] spec [OF a, of 31] spec [OF a, of 0] spec [OF a, of 32]
  show ?thesis by simp
qed

end
